theory Spec2Isabelle
  imports Main
begin

section \<open>Data model\<close>

text \<open>
  The handler under verification is the class \<open>ApiHandler\<close> of \<open>src/handler/api.ts\<close>.
  It works on four collaborators: the state cache, the machine table, the identity
  provider and the smart-machine (device) client.  Their sources, and the declarations
  of \<open>schema.ts\<close> and \<open>model.ts\<close>, are not part of the handler file.  The handler's
  methods are translated statement by statement; each takes the collaborators
  (\<open>this\<close>) and the state of table, cache and call log before the call, and returns
  its result with the state after it.
\<close>

text \<open>Modelled from the spec: the enum \<open>MachineStatus\<close> of \<open>database/schema.ts\<close>
  (section 3 of the specification names these four states).\<close>

datatype MachineStatus = AVAILABLE | AWAITING_DROPOFF | RUNNING | ERROR

text \<open>Modelled from the spec: the enum \<open>HttpResponseCode\<close> of \<open>handler/model.ts\<close>
  (section 6 of the specification lists the six codes).\<close>

datatype HttpResponseCode =
  OK | NOT_FOUND | BAD_REQUEST | UNAUTHORIZED | INTERNAL_SERVER_ERROR | HARDWARE_ERROR

text \<open>Modelled from the spec: the interface \<open>MachineStateDocument\<close> of
  \<open>database/schema.ts\<close> (section 3: identity, location, status and a nullable job).\<close>

record MachineStateDocument =
  machineId :: string
  locationId :: string
  status :: MachineStatus
  jobId :: "string option"

text \<open>The \<open>machine\<close> field of a response is a record, \<open>undefined\<close> or \<open>null\<close>;
  the handler uses all three.\<close>

datatype machine_field = Undefined | Null | Machine MachineStateDocument

record MachineResponseModel =
  statusCode :: HttpResponseCode
  machine :: machine_field

text \<open>Modelled from the spec: the request envelope of \<open>handler/model.ts\<close>
  (section 6).  The operation-specific fields are those the handler reads after
  its casts; \<open>{...request, machineId}\<close> is the update of \<open>req_machineId\<close>.\<close>

record RequestModel =
  token :: string
  httpMethod :: string
  path :: string
  req_locationId :: string
  req_jobId :: string
  req_machineId :: string

text \<open>The exception thrown by \<open>checkToken\<close>: an \<open>Error\<close> whose message is the
  JSON text of an object with the two fields below.\<close>

datatype Error = Error (errStatusCode: HttpResponseCode) (errMessage: string)

text \<open>What a call of the device client does: return, or throw.\<close>

datatype outcome = Returns | Throws

text \<open>
  The collaborators that the handler only consumes are parameters of the model: the
  four primitives of the machine table over an arbitrary table state \<open>'s\<close>, the
  identity provider's \<open>validateToken\<close> and the device client's \<open>startCycle\<close>.
\<close>

record 's ApiHandler =
  listMachinesAtLocation :: "'s \<Rightarrow> string \<Rightarrow> MachineStateDocument list"
  getMachine :: "'s \<Rightarrow> string \<Rightarrow> MachineStateDocument option"
  updateMachineStatus :: "'s \<Rightarrow> string \<Rightarrow> MachineStatus \<Rightarrow> 's"
  updateMachineJobId :: "'s \<Rightarrow> string \<Rightarrow> string \<Rightarrow> 's"
  validateToken :: "string \<Rightarrow> bool"
  startCycle :: "string \<Rightarrow> outcome"

text \<open>Every call that the handler makes on a collaborator, in the order made.\<close>

datatype call =
  IdpValidateToken string
  | TableList string
  | TableGet string
  | TableUpdateStatus string MachineStatus
  | TableUpdateJobId string string
  | CacheGet string
  | CachePut string
  | SmcStartCycle string

text \<open>Modelled from the spec: the class \<open>DataCache\<close> of \<open>database/cache.ts\<close>, a keyed
  store with \<open>get(id) -> record|absent\<close> and \<open>put(id, record)\<close> and no eviction
  (section 3); its state is the field \<open>cache\<close>.  The field \<open>table\<close> is the state of
  the machine table and \<open>calls\<close> the log of collaborator calls.\<close>

record 's world =
  table :: 's
  cache :: "string \<rightharpoonup> MachineStateDocument"
  calls :: "call list"

definition log :: "call \<Rightarrow> 's world \<Rightarrow> 's world" where
  "log c w = w\<lparr>calls := calls w @ [c]\<rparr>"

definition cache_get :: "string \<Rightarrow> 's world \<Rightarrow> MachineStateDocument option \<times> 's world" where
  "cache_get k w = (cache w k, log (CacheGet k) w)"

definition cache_put :: "string \<Rightarrow> MachineStateDocument \<Rightarrow> 's world \<Rightarrow> 's world" where
  "cache_put k v w = log (CachePut k) (w\<lparr>cache := (cache w)(k \<mapsto> v)\<rparr>)"

definition table_listMachinesAtLocation ::
  "'s ApiHandler \<Rightarrow> string \<Rightarrow> 's world \<Rightarrow> MachineStateDocument list \<times> 's world" where
  "table_listMachinesAtLocation this loc w =
     (listMachinesAtLocation this (table w) loc, log (TableList loc) w)"

definition table_getMachine ::
  "'s ApiHandler \<Rightarrow> string \<Rightarrow> 's world \<Rightarrow> MachineStateDocument option \<times> 's world" where
  "table_getMachine this k w = (getMachine this (table w) k, log (TableGet k) w)"

definition table_updateMachineStatus ::
  "'s ApiHandler \<Rightarrow> string \<Rightarrow> MachineStatus \<Rightarrow> 's world \<Rightarrow> 's world" where
  "table_updateMachineStatus this k st w =
     log (TableUpdateStatus k st) (w\<lparr>table := updateMachineStatus this (table w) k st\<rparr>)"

definition table_updateMachineJobId ::
  "'s ApiHandler \<Rightarrow> string \<Rightarrow> string \<Rightarrow> 's world \<Rightarrow> 's world" where
  "table_updateMachineJobId this k j w =
     log (TableUpdateJobId k j) (w\<lparr>table := updateMachineJobId this (table w) k j\<rparr>)"

definition idp_validateToken :: "'s ApiHandler \<Rightarrow> string \<Rightarrow> 's world \<Rightarrow> bool \<times> 's world" where
  "idp_validateToken this t w = (validateToken this t, log (IdpValidateToken t) w)"

definition smc_startCycle :: "'s ApiHandler \<Rightarrow> string \<Rightarrow> 's world \<Rightarrow> outcome \<times> 's world" where
  "smc_startCycle this k w = (startCycle this k, log (SmcStartCycle k) w)"

section \<open>The handler\<close>

text \<open>\<open>checkToken\<close>: \<open>!token\<close> holds of the empty string only, and \<open>||\<close> does not
  evaluate its right operand when the left one holds.\<close>

definition checkToken :: "'s ApiHandler \<Rightarrow> string \<Rightarrow> 's world \<Rightarrow> (Error + unit) \<times> 's world" where
  "checkToken this tok w0 =
     (if tok = [] then (Inl (Error UNAUTHORIZED ''Invalid token''), w0)
      else (case idp_validateToken this tok w0 of
              (valid, w1) \<Rightarrow>
                if \<not> valid then (Inl (Error UNAUTHORIZED ''Invalid token''), w1)
                else (Inr (), w1)))"

definition handleRequestMachine ::
  "'s ApiHandler \<Rightarrow> RequestModel \<Rightarrow> 's world \<Rightarrow> MachineResponseModel \<times> 's world" where
  "handleRequestMachine this request w0 =
     (case table_listMachinesAtLocation this (req_locationId request) w0 of
        (machines, w1) \<Rightarrow>
          (case find (\<lambda>m. status m = AVAILABLE) machines of
             None \<Rightarrow> (\<lparr>statusCode = NOT_FOUND, machine = Undefined\<rparr>, w1)
           | Some available \<Rightarrow>
               (let w2 = table_updateMachineStatus this (machineId available) AWAITING_DROPOFF w1;
                    w3 = table_updateMachineJobId this (machineId available) (req_jobId request) w2
                in case table_getMachine this (machineId available) w3 of
                     (Some updatedMachine, w4) \<Rightarrow>
                       (\<lparr>statusCode = OK, machine = Machine updatedMachine\<rparr>,
                        cache_put (machineId updatedMachine) updatedMachine w4)
                   | (None, w4) \<Rightarrow> (\<lparr>statusCode = NOT_FOUND, machine = Undefined\<rparr>, w4))))"

definition handleGetMachine ::
  "'s ApiHandler \<Rightarrow> RequestModel \<Rightarrow> 's world \<Rightarrow> MachineResponseModel \<times> 's world" where
  "handleGetMachine this request w0 =
     (case cache_get (req_machineId request) w0 of
        (Some m, w1) \<Rightarrow> (\<lparr>statusCode = OK, machine = Machine m\<rparr>, w1)
      | (None, w1) \<Rightarrow>
          (case table_getMachine this (req_machineId request) w1 of
             (Some m, w2) \<Rightarrow>
               (\<lparr>statusCode = OK, machine = Machine m\<rparr>, cache_put (machineId m) m w2)
           | (None, w2) \<Rightarrow> (\<lparr>statusCode = NOT_FOUND, machine = Undefined\<rparr>, w2)))"

text \<open>The lookup that opens \<open>handleStartMachine\<close>:
  \<open>this.cache.get(id) || this.table.getMachine(id)\<close>.\<close>

definition resolveMachine ::
  "'s ApiHandler \<Rightarrow> string \<Rightarrow> 's world \<Rightarrow> MachineStateDocument option \<times> 's world" where
  "resolveMachine this k w0 =
     (case cache_get k w0 of
        (Some m, w1) \<Rightarrow> (Some m, w1)
      | (None, w1) \<Rightarrow> table_getMachine this k w1)"

text \<open>The \<open>try\<close> block runs to its end when \<open>startCycle\<close> returns; when it throws,
  the rest of the block is skipped and the \<open>catch\<close> block runs.  The primitives of the
  table and of the cache do not throw (the specification gives them no failure), so
  \<open>startCycle\<close> is the only call that can take the handler into the \<open>catch\<close> block.\<close>

definition handleStartMachine ::
  "'s ApiHandler \<Rightarrow> RequestModel \<Rightarrow> 's world \<Rightarrow> MachineResponseModel \<times> 's world" where
  "handleStartMachine this request w0 =
     (case resolveMachine this (req_machineId request) w0 of
        (None, w1) \<Rightarrow> (\<lparr>statusCode = NOT_FOUND, machine = Undefined\<rparr>, w1)
      | (Some m, w1) \<Rightarrow>
          if status m \<noteq> AWAITING_DROPOFF
          then (\<lparr>statusCode = BAD_REQUEST, machine = Machine m\<rparr>, w1)
          else
            (case smc_startCycle this (machineId m) w1 of
               (Returns, w2) \<Rightarrow>
                 (let w3 = table_updateMachineStatus this (machineId m) RUNNING w2
                  in case table_getMachine this (machineId m) w3 of
                       (Some updatedMachine, w4) \<Rightarrow>
                         (\<lparr>statusCode = OK, machine = Machine updatedMachine\<rparr>,
                          cache_put (machineId updatedMachine) updatedMachine w4)
                     | (None, w4) \<Rightarrow> (\<lparr>statusCode = NOT_FOUND, machine = Undefined\<rparr>, w4))
             | (Throws, w2) \<Rightarrow>
                 (let w3 = table_updateMachineStatus this (machineId m) ERROR w2
                  in case table_getMachine this (machineId m) w3 of
                       (Some errorMachine, w4) \<Rightarrow>
                         (\<lparr>statusCode = HARDWARE_ERROR, machine = Machine errorMachine\<rparr>,
                          cache_put (machineId errorMachine) errorMachine w4)
                     | (None, w4) \<Rightarrow> (\<lparr>statusCode = NOT_FOUND, machine = Undefined\<rparr>, w4))))"

subsection \<open>Routing\<close>

text \<open>The character class \<open>[a-zA-Z0-9-]\<close>.\<close>

definition id_char :: "char \<Rightarrow> bool" where
  "id_char c \<longleftrightarrow>
     c \<in> set (''abcdefghijklmnopqrstuvwxyz'' @ ''ABCDEFGHIJKLMNOPQRSTUVWXYZ'' @ ''0123456789-'')"

text \<open>\<open>path.match(/^\/machine\/([a-zA-Z0-9-]+)$/)\<close>: the captured group, or no match.\<close>

definition getMachineMatch :: "string \<Rightarrow> string option" where
  "getMachineMatch p =
     (let rest = drop 9 p
      in if take 9 p = ''/machine/'' \<and> rest \<noteq> [] \<and> list_all id_char rest
         then Some rest else None)"

text \<open>\<open>path.match(/^\/machine\/([a-zA-Z0-9-]+)\/start$/)\<close>.  No character of the
  class is a slash, so the group is the longest run of class characters after the
  prefix, and what follows it has to be \<open>/start\<close> up to the end of the path.\<close>

definition startMachineMatch :: "string \<Rightarrow> string option" where
  "startMachineMatch p =
     (let rest = drop 9 p;
          grp = takeWhile id_char rest
      in if take 9 p = ''/machine/'' \<and> grp \<noteq> [] \<and> dropWhile id_char rest = ''/start''
         then Some grp else None)"

text \<open>The response of \<open>handle\<close> when no route matches.\<close>

definition internalError :: MachineResponseModel where
  "internalError = \<lparr>statusCode = INTERNAL_SERVER_ERROR, machine = Null\<rparr>"

text \<open>The body of \<open>handle\<close> after the token check: the three \<open>if\<close> statements in
  their order, then the fall-through response.\<close>

definition route ::
  "'s ApiHandler \<Rightarrow> RequestModel \<Rightarrow> 's world \<Rightarrow> MachineResponseModel \<times> 's world" where
  "route this request w =
     (if httpMethod request = ''POST'' \<and> path request = ''/machine/request''
      then handleRequestMachine this request w
      else
        (case (httpMethod request = ''GET'', getMachineMatch (path request)) of
           (True, Some k) \<Rightarrow> handleGetMachine this (request\<lparr>req_machineId := k\<rparr>) w
         | _ \<Rightarrow>
             (case (httpMethod request = ''POST'', startMachineMatch (path request)) of
                (True, Some k) \<Rightarrow> handleStartMachine this (request\<lparr>req_machineId := k\<rparr>) w
              | _ \<Rightarrow> (internalError, w))))"

text \<open>\<open>handle\<close>: the exception of \<open>checkToken\<close> is not caught, so it is the outcome
  of \<open>handle\<close>; otherwise the routed handler's response is returned.\<close>

definition handle ::
  "'s ApiHandler \<Rightarrow> RequestModel \<Rightarrow> 's world \<Rightarrow> (Error + MachineResponseModel) \<times> 's world" where
  "handle this request w0 =
     (case checkToken this (token request) w0 of
        (Inl e, w1) \<Rightarrow> (Inl e, w1)
      | (Inr u, w1) \<Rightarrow> (case route this request w1 of (r, w2) \<Rightarrow> (Inr r, w2)))"

section \<open>The machine table\<close>

text \<open>Modelled from the spec: the class \<open>MachineStateTable\<close> of \<open>database/table.ts\<close>,
  whose source is not part of the handler file.  Section 6 of the specification gives its
  four primitives, section 3 says that \<open>machineId\<close> identifies a record and that records
  are never deleted.  The table is the list of its records in listing order; a lookup by
  id yields the first record with that id, an update rewrites the records with that id
  and is silent when there is none.  Records are values: a record handed out is a
  snapshot, as section 3 says of cache entries.\<close>

definition tbl_listMachinesAtLocation ::
  "MachineStateDocument list \<Rightarrow> string \<Rightarrow> MachineStateDocument list" where
  "tbl_listMachinesAtLocation t loc = filter (\<lambda>m. locationId m = loc) t"

definition tbl_getMachine :: "MachineStateDocument list \<Rightarrow> string \<Rightarrow> MachineStateDocument option" where
  "tbl_getMachine t k = find (\<lambda>m. machineId m = k) t"

definition tbl_updateMachineStatus ::
  "MachineStateDocument list \<Rightarrow> string \<Rightarrow> MachineStatus \<Rightarrow> MachineStateDocument list" where
  "tbl_updateMachineStatus t k st = map (\<lambda>m. if machineId m = k then m\<lparr>status := st\<rparr> else m) t"

definition tbl_updateMachineJobId ::
  "MachineStateDocument list \<Rightarrow> string \<Rightarrow> string \<Rightarrow> MachineStateDocument list" where
  "tbl_updateMachineJobId t k j = map (\<lambda>m. if machineId m = k then m\<lparr>jobId := Some j\<rparr> else m) t"

text \<open>The handler over the list table, for a given identity provider and device.\<close>

definition listHandler ::
  "(string \<Rightarrow> bool) \<Rightarrow> (string \<Rightarrow> outcome) \<Rightarrow> (MachineStateDocument list) ApiHandler" where
  "listHandler idp smc =
     \<lparr>listMachinesAtLocation = tbl_listMachinesAtLocation,
      getMachine = tbl_getMachine,
      updateMachineStatus = tbl_updateMachineStatus,
      updateMachineJobId = tbl_updateMachineJobId,
      validateToken = idp,
      startCycle = smc\<rparr>"

text \<open>Modelled from the spec: the contract of \<open>MachineStateTable\<close> that the statements
  about the contents of the table rest on, for an arbitrary table state.  A status
  update changes the status of the record with that id and nothing else, and creates no
  record; likewise a job update; a record is filed under its own \<open>machineId\<close>; a
  listed record can be read back by its id.\<close>

definition store_laws :: "'s ApiHandler \<Rightarrow> bool" where
  "store_laws this \<longleftrightarrow>
     (\<forall>t k st k'. getMachine this (updateMachineStatus this t k st) k' =
        (if k' = k then map_option (\<lambda>m. m\<lparr>status := st\<rparr>) (getMachine this t k)
         else getMachine this t k')) \<and>
     (\<forall>t k j k'. getMachine this (updateMachineJobId this t k j) k' =
        (if k' = k then map_option (\<lambda>m. m\<lparr>jobId := Some j\<rparr>) (getMachine this t k)
         else getMachine this t k')) \<and>
     (\<forall>t k m. getMachine this t k = Some m \<longrightarrow> machineId m = k) \<and>
     (\<forall>t loc m. m \<in> set (listMachinesAtLocation this t loc) \<longrightarrow>
        getMachine this t (machineId m) \<noteq> None)"

text \<open>Modelled from the spec: a cache entry is keyed by the \<open>machineId\<close> of the record
  it holds (section 3).  Every \<open>put\<close> of the handler files a record under its own id.\<close>

definition cache_wf :: "(string \<rightharpoonup> MachineStateDocument) \<Rightarrow> bool" where
  "cache_wf c \<longleftrightarrow> (\<forall>k m. c k = Some m \<longrightarrow> machineId m = k)"

text \<open>The table record and the cache entry of machine \<open>k\<close> are the same in \<open>w'\<close> as
  in \<open>w\<close>.\<close>

definition unchanged_at :: "'s ApiHandler \<Rightarrow> string \<Rightarrow> 's world \<Rightarrow> 's world \<Rightarrow> bool" where
  "unchanged_at this k w w' \<longleftrightarrow>
     getMachine this (table w') k = getMachine this (table w) k \<and> cache w' k = cache w k"

section \<open>Sample data\<close>

text \<open>A small installation on which the theorems below are instantiated: two reserved
  machines, two free ones and a running one; a device that fails for \<open>m2\<close> and \<open>m8\<close>;
  an identity provider that accepts one token.\<close>

definition machine_m1 :: MachineStateDocument where
  "machine_m1 = \<lparr>machineId = ''m1'', locationId = ''loc-1'', status = AWAITING_DROPOFF,
                  jobId = Some ''job-1''\<rparr>"

definition machine_m2 :: MachineStateDocument where
  "machine_m2 = \<lparr>machineId = ''m2'', locationId = ''loc-1'', status = AWAITING_DROPOFF,
                  jobId = Some ''job-2''\<rparr>"

definition machine_m3 :: MachineStateDocument where
  "machine_m3 = \<lparr>machineId = ''m3'', locationId = ''loc-1'', status = AVAILABLE, jobId = None\<rparr>"

definition machine_m4 :: MachineStateDocument where
  "machine_m4 = \<lparr>machineId = ''m4'', locationId = ''loc-1'', status = AVAILABLE, jobId = None\<rparr>"

definition machine_m5 :: MachineStateDocument where
  "machine_m5 = \<lparr>machineId = ''m5'', locationId = ''loc-2'', status = RUNNING,
                  jobId = Some ''job-5''\<rparr>"

text \<open>Two records that only the cache knows.\<close>

definition machine_m8 :: MachineStateDocument where
  "machine_m8 = \<lparr>machineId = ''m8'', locationId = ''loc-3'', status = AWAITING_DROPOFF,
                  jobId = Some ''job-8''\<rparr>"

definition machine_m9 :: MachineStateDocument where
  "machine_m9 = \<lparr>machineId = ''m9'', locationId = ''loc-3'', status = AWAITING_DROPOFF,
                  jobId = Some ''job-9''\<rparr>"

definition sampleHandler :: "(MachineStateDocument list) ApiHandler" where
  "sampleHandler =
     listHandler (\<lambda>t. t = ''valid-token'')
       (\<lambda>k. if k = ''m2'' \<or> k = ''m8'' then Throws else Returns)"

definition sampleWorld :: "(MachineStateDocument list) world" where
  "sampleWorld =
     \<lparr>table = [machine_m1, machine_m2, machine_m3, machine_m4, machine_m5],
      cache = Map.empty, calls = []\<rparr>"

text \<open>The sample world with a cache that disagrees with the table on \<open>m1\<close> and \<open>m5\<close>.\<close>

definition staleWorld :: "(MachineStateDocument list) world" where
  "staleWorld =
     sampleWorld\<lparr>cache := [''m1'' \<mapsto> machine_m1\<lparr>status := AVAILABLE, jobId := None\<rparr>,
                            ''m5'' \<mapsto> machine_m5\<lparr>status := AWAITING_DROPOFF\<rparr>]\<rparr>"

text \<open>The sample world with cache entries for machines that the table does not hold.\<close>

definition orphanWorld :: "(MachineStateDocument list) world" where
  "orphanWorld = sampleWorld\<lparr>cache := [''m8'' \<mapsto> machine_m8, ''m9'' \<mapsto> machine_m9]\<rparr>"

text \<open>A table in which no record can be read back by id (it breaks \<open>store_laws\<close>).\<close>

definition vanishingHandler :: "(MachineStateDocument list) ApiHandler" where
  "vanishingHandler = sampleHandler\<lparr>getMachine := (\<lambda>t k. None)\<rparr>"

definition sampleRequest :: "string \<Rightarrow> string \<Rightarrow> string \<Rightarrow> RequestModel" where
  "sampleRequest tok meth p =
     \<lparr>token = tok, httpMethod = meth, path = p, req_locationId = ''loc-1'',
      req_jobId = ''job-9'', req_machineId = []\<rparr>"

definition startRequest :: "string \<Rightarrow> RequestModel" where
  "startRequest k =
     (sampleRequest ''valid-token'' ''POST'' (''/machine/'' @ k @ ''/start''))\<lparr>req_machineId := k\<rparr>"

definition getRequest :: "string \<Rightarrow> RequestModel" where
  "getRequest k =
     (sampleRequest ''valid-token'' ''GET'' (''/machine/'' @ k))\<lparr>req_machineId := k\<rparr>"

definition reserveRequest :: "string \<Rightarrow> RequestModel" where
  "reserveRequest loc =
     (sampleRequest ''valid-token'' ''POST'' ''/machine/request'')\<lparr>req_locationId := loc\<rparr>"

section \<open>The list table keeps the contract\<close>

lemma find_map_upd:
  assumes "\<And>m. machineId (f m) = machineId m"
  shows "find (\<lambda>m. machineId m = k') (map (\<lambda>m. if machineId m = k then f m else m) t) =
     (if k' = k then map_option f (find (\<lambda>m. machineId m = k) t)
      else find (\<lambda>m. machineId m = k') t)"
  using assms by (induction t) auto

lemma tbl_get_updateStatus:
  "tbl_getMachine (tbl_updateMachineStatus t k st) k' =
     (if k' = k then map_option (\<lambda>m. m\<lparr>status := st\<rparr>) (tbl_getMachine t k)
      else tbl_getMachine t k')"
  unfolding tbl_getMachine_def tbl_updateMachineStatus_def
  by (rule find_map_upd) simp

lemma tbl_get_updateJobId:
  "tbl_getMachine (tbl_updateMachineJobId t k j) k' =
     (if k' = k then map_option (\<lambda>m. m\<lparr>jobId := Some j\<rparr>) (tbl_getMachine t k)
      else tbl_getMachine t k')"
  unfolding tbl_getMachine_def tbl_updateMachineJobId_def
  by (rule find_map_upd) simp

lemma tbl_get_key: "tbl_getMachine t k = Some m \<Longrightarrow> machineId m = k"
  by (auto simp: tbl_getMachine_def find_Some_iff)

lemma tbl_list_get:
  "m \<in> set (tbl_listMachinesAtLocation t loc) \<Longrightarrow> tbl_getMachine t (machineId m) \<noteq> None"
  by (auto simp: tbl_getMachine_def tbl_listMachinesAtLocation_def find_None_iff)

lemma listHandler_laws: "store_laws (listHandler idp smc)"
  unfolding store_laws_def listHandler_def
  by (simp add: tbl_get_updateStatus tbl_get_updateJobId tbl_get_key tbl_list_get)

lemma sampleHandler_laws: "store_laws sampleHandler"
  by (simp add: sampleHandler_def listHandler_laws)

text \<open>The four laws, one by one.\<close>

lemma law_status:
  "store_laws this \<Longrightarrow>
   getMachine this (updateMachineStatus this t k st) k' =
     (if k' = k then map_option (\<lambda>m. m\<lparr>status := st\<rparr>) (getMachine this t k)
      else getMachine this t k')"
  unfolding store_laws_def by blast

lemma law_jobId:
  "store_laws this \<Longrightarrow>
   getMachine this (updateMachineJobId this t k j) k' =
     (if k' = k then map_option (\<lambda>m. m\<lparr>jobId := Some j\<rparr>) (getMachine this t k)
      else getMachine this t k')"
  unfolding store_laws_def by blast

lemma law_key: "store_laws this \<Longrightarrow> getMachine this t k = Some m \<Longrightarrow> machineId m = k"
  unfolding store_laws_def by blast

lemma law_listed:
  "store_laws this \<Longrightarrow> m \<in> set (listMachinesAtLocation this t loc) \<Longrightarrow>
   \<exists>r. getMachine this t (machineId m) = Some r"
  unfolding store_laws_def by blast

section \<open>Unfolding the model\<close>

lemmas prims = log_def cache_get_def cache_put_def table_listMachinesAtLocation_def
  table_getMachine_def table_updateMachineStatus_def table_updateMachineJobId_def
  idp_validateToken_def smc_startCycle_def

lemmas handlers = handle_def checkToken_def route_def handleRequestMachine_def
  handleGetMachine_def handleStartMachine_def resolveMachine_def internalError_def
  getMachineMatch_def startMachineMatch_def id_char_def Let_def

lemmas samples = machine_m1_def machine_m2_def machine_m3_def machine_m4_def machine_m5_def
  machine_m8_def machine_m9_def sampleHandler_def sampleWorld_def staleWorld_def
  orphanWorld_def vanishingHandler_def sampleRequest_def startRequest_def getRequest_def
  reserveRequest_def listHandler_def tbl_listMachinesAtLocation_def tbl_getMachine_def
  tbl_updateMachineStatus_def tbl_updateMachineJobId_def

lemma resolveMachine_eq:
  "resolveMachine this k w =
     (case cache w k of
        Some m \<Rightarrow> (Some m, w\<lparr>calls := calls w @ [CacheGet k]\<rparr>)
      | None \<Rightarrow> (getMachine this (table w) k, w\<lparr>calls := calls w @ [CacheGet k, TableGet k]\<rparr>))"
  by (simp add: resolveMachine_def prims split: option.splits)

section \<open>The access guard\<close>

lemma checkToken_valid:
  "tok \<noteq> [] \<Longrightarrow> validateToken this tok \<Longrightarrow>
   checkToken this tok w = (Inr (), log (IdpValidateToken tok) w)"
  by (simp add: checkToken_def idp_validateToken_def)

lemma handle_valid:
  "token request \<noteq> [] \<Longrightarrow> validateToken this (token request) \<Longrightarrow>
   handle this request w =
     map_prod Inr id (route this request (log (IdpValidateToken (token request)) w))"
  by (simp add: handle_def checkToken_valid split: prod.splits)

text \<open>
  Claim C3.  A request whose token is empty, or is rejected by the identity provider,
  makes \<open>handle\<close> throw: the outcome is the exception (\<open>Inl\<close>), not a response
  (\<open>Inr\<close>), and it carries the status code \<open>UNAUTHORIZED\<close> and the message
  \<open>Invalid token\<close>.  Whatever the method and the path of the request, the table and
  the cache are left as they were; the only call made is the one to the identity
  provider, and none at all for the empty token.
\<close>

theorem handle_unauthorized:
  assumes "token request = [] \<or> \<not> validateToken this (token request)"
  shows "fst (handle this request w) = Inl (Error UNAUTHORIZED ''Invalid token'') \<and>
         table (snd (handle this request w)) = table w \<and>
         cache (snd (handle this request w)) = cache w \<and>
         calls (snd (handle this request w)) =
           calls w @ (if token request = [] then [] else [IdpValidateToken (token request)])"
  using assms by (auto simp: handle_def checkToken_def prims)

theorem handle_unauthorized_witness:
  "\<not> validateToken sampleHandler (token (sampleRequest ''stolen'' ''POST'' ''/machine/request'')) \<and>
   fst (handle sampleHandler (sampleRequest ''stolen'' ''POST'' ''/machine/request'') sampleWorld) =
     Inl (Error UNAUTHORIZED ''Invalid token'') \<and>
   table (snd (handle sampleHandler (sampleRequest ''stolen'' ''POST'' ''/machine/request'') sampleWorld)) =
     table sampleWorld \<and>
   cache (snd (handle sampleHandler (sampleRequest ''stolen'' ''POST'' ''/machine/request'') sampleWorld)) =
     cache sampleWorld \<and>
   calls (snd (handle sampleHandler (sampleRequest ''stolen'' ''POST'' ''/machine/request'') sampleWorld)) =
     [IdpValidateToken ''stolen'']"
  using handle_unauthorized [where this = sampleHandler and w = sampleWorld
      and request = "sampleRequest ''stolen'' ''POST'' ''/machine/request''"]
  by (simp add: samples)

section \<open>Routing\<close>

text \<open>The two matchers accept exactly the paths of the two patterns.\<close>

lemma getMachineMatch_iff:
  "getMachineMatch p = Some k \<longleftrightarrow> p = ''/machine/'' @ k \<and> k \<noteq> [] \<and> list_all id_char k"
proof
  assume "getMachineMatch p = Some k"
  then have a: "take 9 p = ''/machine/''" "drop 9 p = k" "k \<noteq> []" "list_all id_char k"
    by (auto simp: getMachineMatch_def Let_def split: if_splits)
  have "p = take 9 p @ drop 9 p" by simp
  with a show "p = ''/machine/'' @ k \<and> k \<noteq> [] \<and> list_all id_char k" by metis
next
  assume "p = ''/machine/'' @ k \<and> k \<noteq> [] \<and> list_all id_char k"
  then show "getMachineMatch p = Some k"
    by (simp add: getMachineMatch_def)
qed

lemma not_id_char_slash: "\<not> id_char CHR ''/''"
  by (simp add: id_char_def)

lemma startMachineMatch_iff:
  "startMachineMatch p = Some k \<longleftrightarrow>
     p = ''/machine/'' @ k @ ''/start'' \<and> k \<noteq> [] \<and> list_all id_char k"
proof
  assume "startMachineMatch p = Some k"
  then have a: "take 9 p = ''/machine/''" "takeWhile id_char (drop 9 p) = k" "k \<noteq> []"
    "dropWhile id_char (drop 9 p) = ''/start''"
    by (auto simp: startMachineMatch_def Let_def split: if_splits)
  have "p = take 9 p @ takeWhile id_char (drop 9 p) @ dropWhile id_char (drop 9 p)" by simp
  with a have "p = ''/machine/'' @ k @ ''/start''" by metis
  moreover from a(2) have "list_all id_char k"
    by (auto simp: list_all_iff dest: set_takeWhileD)
  ultimately show "p = ''/machine/'' @ k @ ''/start'' \<and> k \<noteq> [] \<and> list_all id_char k"
    using a(3) by simp
next
  assume h: "p = ''/machine/'' @ k @ ''/start'' \<and> k \<noteq> [] \<and> list_all id_char k"
  then have all: "\<forall>c\<in>set k. id_char c" by (simp add: list_all_iff)
  have tw: "takeWhile id_char (k @ ''/start'') = k"
    using all by (simp add: takeWhile_append2 not_id_char_slash)
  have dw: "dropWhile id_char (k @ ''/start'') = ''/start''"
    using all by (simp add: dropWhile_append2 not_id_char_slash)
  from h tw dw show "startMachineMatch p = Some k"
    by (simp add: startMachineMatch_def)
qed

text \<open>
  Claim C8.  With a valid token, \<open>handle\<close> sends \<open>POST /machine/request\<close> to
  \<open>handleRequestMachine\<close>, \<open>GET /machine/{id}\<close> to \<open>handleGetMachine\<close> and
  \<open>POST /machine/{id}/start\<close> to \<open>handleStartMachine\<close>, with the id, a non-empty
  word over \<open>[a-zA-Z0-9-]\<close>, as the request's \<open>machineId\<close>.  A request of none of
  these shapes is answered by \<open>INTERNAL_SERVER_ERROR\<close> with machine \<open>null\<close>, and
  the table and the cache are left as they were.
\<close>

theorem handle_routes:
  assumes "token request \<noteq> []" and "validateToken this (token request)"
  shows
    "(httpMethod request = ''POST'' \<and> path request = ''/machine/request'' \<longrightarrow>
        handle this request w =
          map_prod Inr id
            (handleRequestMachine this request (log (IdpValidateToken (token request)) w))) \<and>
     (\<forall>k. httpMethod request = ''GET'' \<and> path request = ''/machine/'' @ k \<and>
           k \<noteq> [] \<and> list_all id_char k \<longrightarrow>
        handle this request w =
          map_prod Inr id
            (handleGetMachine this (request\<lparr>req_machineId := k\<rparr>)
               (log (IdpValidateToken (token request)) w))) \<and>
     (\<forall>k. httpMethod request = ''POST'' \<and> path request = ''/machine/'' @ k @ ''/start'' \<and>
           k \<noteq> [] \<and> list_all id_char k \<longrightarrow>
        handle this request w =
          map_prod Inr id
            (handleStartMachine this (request\<lparr>req_machineId := k\<rparr>)
               (log (IdpValidateToken (token request)) w))) \<and>
     (\<not> (httpMethod request = ''POST'' \<and> path request = ''/machine/request'') \<and>
      \<not> (\<exists>k. httpMethod request = ''GET'' \<and> path request = ''/machine/'' @ k \<and>
              k \<noteq> [] \<and> list_all id_char k) \<and>
      \<not> (\<exists>k. httpMethod request = ''POST'' \<and> path request = ''/machine/'' @ k @ ''/start'' \<and>
              k \<noteq> [] \<and> list_all id_char k) \<longrightarrow>
        fst (handle this request w) = Inr \<lparr>statusCode = INTERNAL_SERVER_ERROR, machine = Null\<rparr> \<and>
        table (snd (handle this request w)) = table w \<and>
        cache (snd (handle this request w)) = cache w \<and>
        calls (snd (handle this request w)) = calls w @ [IdpValidateToken (token request)])"
proof (intro conjI allI impI)
  assume "httpMethod request = ''POST'' \<and> path request = ''/machine/request''"
  then show "handle this request w =
      map_prod Inr id
        (handleRequestMachine this request (log (IdpValidateToken (token request)) w))"
    using assms by (simp add: handle_valid route_def)
next
  fix k
  assume h: "httpMethod request = ''GET'' \<and> path request = ''/machine/'' @ k \<and>
             k \<noteq> [] \<and> list_all id_char k"
  then have "getMachineMatch (path request) = Some k"
    using getMachineMatch_iff by blast
  with h show "handle this request w =
      map_prod Inr id
        (handleGetMachine this (request\<lparr>req_machineId := k\<rparr>)
           (log (IdpValidateToken (token request)) w))"
    using assms by (simp add: handle_valid route_def)
next
  fix k
  assume h: "httpMethod request = ''POST'' \<and> path request = ''/machine/'' @ k @ ''/start'' \<and>
             k \<noteq> [] \<and> list_all id_char k"
  then have m: "startMachineMatch (path request) = Some k"
    using startMachineMatch_iff by blast
  from h have "CHR ''/'' \<in> set (k @ ''/start'')" by simp
  then have "k @ ''/start'' \<noteq> ''request''" by auto
  with h have nr: "path request \<noteq> ''/machine/request''" by simp
  from h m nr show "handle this request w =
      map_prod Inr id
        (handleStartMachine this (request\<lparr>req_machineId := k\<rparr>)
           (log (IdpValidateToken (token request)) w))"
    using assms by (simp add: handle_valid route_def split: option.splits)
next
  assume h: "\<not> (httpMethod request = ''POST'' \<and> path request = ''/machine/request'') \<and>
      \<not> (\<exists>k. httpMethod request = ''GET'' \<and> path request = ''/machine/'' @ k \<and>
              k \<noteq> [] \<and> list_all id_char k) \<and>
      \<not> (\<exists>k. httpMethod request = ''POST'' \<and> path request = ''/machine/'' @ k @ ''/start'' \<and>
              k \<noteq> [] \<and> list_all id_char k)"
  have g: "httpMethod request = ''GET'' \<Longrightarrow> getMachineMatch (path request) = None"
    using h getMachineMatch_iff [of "path request"]
    by (cases "getMachineMatch (path request)") auto
  have s: "httpMethod request = ''POST'' \<Longrightarrow> startMachineMatch (path request) = None"
    using h startMachineMatch_iff [of "path request"]
    by (cases "startMachineMatch (path request)") auto
  have "route this request (log (IdpValidateToken (token request)) w) =
          (internalError, log (IdpValidateToken (token request)) w)"
    using h g s by (auto simp: route_def split: option.splits bool.splits)
  then have r: "handle this request w =
      (Inr internalError, log (IdpValidateToken (token request)) w)"
    using assms by (simp add: handle_valid)
  show "fst (handle this request w) = Inr \<lparr>statusCode = INTERNAL_SERVER_ERROR, machine = Null\<rparr>"
    by (simp add: r internalError_def)
  show "table (snd (handle this request w)) = table w" by (simp add: r log_def)
  show "cache (snd (handle this request w)) = cache w" by (simp add: r log_def)
  show "calls (snd (handle this request w)) = calls w @ [IdpValidateToken (token request)]"
    by (simp add: r log_def)
qed

theorem handle_routes_witness:
  "token (sampleRequest ''valid-token'' ''POST'' ''/machine/m1/start'') \<noteq> [] \<and>
   validateToken sampleHandler (token (sampleRequest ''valid-token'' ''POST'' ''/machine/m1/start'')) \<and>
   list_all id_char ''m1'' \<and>
   handle sampleHandler (sampleRequest ''valid-token'' ''POST'' ''/machine/m1/start'') sampleWorld =
     map_prod Inr id
       (handleStartMachine sampleHandler
          ((sampleRequest ''valid-token'' ''POST'' ''/machine/m1/start'')\<lparr>req_machineId := ''m1''\<rparr>)
          (log (IdpValidateToken ''valid-token'') sampleWorld)) \<and>
   fst (handle sampleHandler (sampleRequest ''valid-token'' ''POST'' ''/machine/m1/start'') sampleWorld) =
     Inr \<lparr>statusCode = OK, machine = Machine (machine_m1\<lparr>status := RUNNING\<rparr>)\<rparr> \<and>
   handle sampleHandler (sampleRequest ''valid-token'' ''DELETE'' ''/machine/x'') sampleWorld =
     (Inr \<lparr>statusCode = INTERNAL_SERVER_ERROR, machine = Null\<rparr>,
      sampleWorld\<lparr>calls := [IdpValidateToken ''valid-token'']\<rparr>) \<and>
   handle sampleHandler (sampleRequest ''valid-token'' ''GET'' ''/machine/m_1'') sampleWorld =
     (Inr \<lparr>statusCode = INTERNAL_SERVER_ERROR, machine = Null\<rparr>,
      sampleWorld\<lparr>calls := [IdpValidateToken ''valid-token'']\<rparr>)"
  using handle_routes [where this = sampleHandler and w = sampleWorld
      and request = "sampleRequest ''valid-token'' ''POST'' ''/machine/m1/start''"]
    handle_routes [where this = sampleHandler and w = sampleWorld
      and request = "sampleRequest ''valid-token'' ''DELETE'' ''/machine/x''"]
  by (simp add: samples handlers prims)

section \<open>Get\<close>

text \<open>
  Claim C6.  \<open>handleGetMachine\<close> asks the cache first.  On a hit the cached record is
  returned with \<open>OK\<close> and the table is not read: the call to the cache is the only
  call.  On a miss the table is read; a record found there is put into the cache and
  returned with \<open>OK\<close>.  When neither holds a record the answer is \<open>NOT_FOUND\<close> with
  no machine, and the table and the cache are left as they were.
\<close>

theorem handleGetMachine_cache_first:
  "(\<forall>m. cache w (req_machineId request) = Some m \<longrightarrow>
      handleGetMachine this request w =
        (\<lparr>statusCode = OK, machine = Machine m\<rparr>,
         w\<lparr>calls := calls w @ [CacheGet (req_machineId request)]\<rparr>)) \<and>
   (\<forall>m. cache w (req_machineId request) = None \<and>
        getMachine this (table w) (req_machineId request) = Some m \<longrightarrow>
      handleGetMachine this request w =
        (\<lparr>statusCode = OK, machine = Machine m\<rparr>,
         w\<lparr>cache := (cache w)(machineId m \<mapsto> m),
           calls := calls w @ [CacheGet (req_machineId request),
                               TableGet (req_machineId request), CachePut (machineId m)]\<rparr>)) \<and>
   (cache w (req_machineId request) = None \<and>
    getMachine this (table w) (req_machineId request) = None \<longrightarrow>
      handleGetMachine this request w =
        (\<lparr>statusCode = NOT_FOUND, machine = Undefined\<rparr>,
         w\<lparr>calls := calls w @ [CacheGet (req_machineId request),
                               TableGet (req_machineId request)]\<rparr>))"
  by (simp add: handleGetMachine_def prims)

theorem handleGetMachine_cache_first_witness:
  "cache sampleWorld (req_machineId (getRequest ''m5'')) = None \<and>
   getMachine sampleHandler (table sampleWorld) (req_machineId (getRequest ''m5'')) = Some machine_m5 \<and>
   handleGetMachine sampleHandler (getRequest ''m5'') sampleWorld =
     (\<lparr>statusCode = OK, machine = Machine machine_m5\<rparr>,
      sampleWorld\<lparr>cache := [''m5'' \<mapsto> machine_m5],
                  calls := [CacheGet ''m5'', TableGet ''m5'', CachePut ''m5'']\<rparr>) \<and>
   handleGetMachine sampleHandler (getRequest ''m1'') staleWorld =
     (\<lparr>statusCode = OK, machine = Machine (machine_m1\<lparr>status := AVAILABLE, jobId := None\<rparr>)\<rparr>,
      staleWorld\<lparr>calls := [CacheGet ''m1'']\<rparr>) \<and>
   handleGetMachine sampleHandler (getRequest ''m7'') sampleWorld =
     (\<lparr>statusCode = NOT_FOUND, machine = Undefined\<rparr>,
      sampleWorld\<lparr>calls := [CacheGet ''m7'', TableGet ''m7'']\<rparr>)"
  using handleGetMachine_cache_first [where this = sampleHandler and w = sampleWorld
      and request = "getRequest ''m5''"]
    handleGetMachine_cache_first [where this = sampleHandler and w = staleWorld
      and request = "getRequest ''m1''"]
    handleGetMachine_cache_first [where this = sampleHandler and w = sampleWorld
      and request = "getRequest ''m7''"]
  by (simp add: samples)

section \<open>Start\<close>

text \<open>
  Claim C5.  When the record that \<open>handleStartMachine\<close> resolves (the cached one, or
  else the table's) is not in \<open>AWAITING_DROPOFF\<close>, the answer is \<open>BAD_REQUEST\<close> with
  that record.  The table and the cache are left as they were, and the only calls made
  are the reads of the lookup: the device is not called.
\<close>

theorem handleStartMachine_guard:
  assumes "fst (resolveMachine this (req_machineId request) w) = Some m"
    and "status m \<noteq> AWAITING_DROPOFF"
  shows "fst (handleStartMachine this request w) =
           \<lparr>statusCode = BAD_REQUEST, machine = Machine m\<rparr> \<and>
         table (snd (handleStartMachine this request w)) = table w \<and>
         cache (snd (handleStartMachine this request w)) = cache w \<and>
         calls (snd (handleStartMachine this request w)) =
           calls w @ CacheGet (req_machineId request) #
             (if cache w (req_machineId request) = None
              then [TableGet (req_machineId request)] else [])"
  using assms
  by (auto simp: handleStartMachine_def resolveMachine_eq split: option.splits)

theorem handleStartMachine_guard_witness:
  "fst (resolveMachine sampleHandler (req_machineId (startRequest ''m5'')) sampleWorld) = Some machine_m5 \<and>
   status machine_m5 \<noteq> AWAITING_DROPOFF \<and>
   fst (handleStartMachine sampleHandler (startRequest ''m5'') sampleWorld) =
     \<lparr>statusCode = BAD_REQUEST, machine = Machine machine_m5\<rparr> \<and>
   table (snd (handleStartMachine sampleHandler (startRequest ''m5'') sampleWorld)) = table sampleWorld \<and>
   cache (snd (handleStartMachine sampleHandler (startRequest ''m5'') sampleWorld)) = cache sampleWorld \<and>
   calls (snd (handleStartMachine sampleHandler (startRequest ''m5'') sampleWorld)) =
     [CacheGet ''m5'', TableGet ''m5'']"
  using handleStartMachine_guard [where this = sampleHandler and w = sampleWorld
      and request = "startRequest ''m5''" and m = machine_m5]
  by (simp add: samples resolveMachine_eq)

text \<open>
  Claim C9.  When the cache holds an entry for the requested id, the status guard is
  decided on that entry and the table is not asked first.  An entry whose status is not
  \<open>AWAITING_DROPOFF\<close> gives \<open>BAD_REQUEST\<close> with the cached record after the single
  call to the cache, whatever the table holds.  An entry in \<open>AWAITING_DROPOFF\<close>
  passes the guard, whatever the table holds: the next call is the device's
  \<open>startCycle\<close>, and the answer is not \<open>BAD_REQUEST\<close>.
\<close>

theorem handleStartMachine_cached_snapshot:
  assumes "cache w (req_machineId request) = Some m"
  shows "(status m \<noteq> AWAITING_DROPOFF \<longrightarrow>
            handleStartMachine this request w =
              (\<lparr>statusCode = BAD_REQUEST, machine = Machine m\<rparr>,
               w\<lparr>calls := calls w @ [CacheGet (req_machineId request)]\<rparr>)) \<and>
         (status m = AWAITING_DROPOFF \<longrightarrow>
            statusCode (fst (handleStartMachine this request w)) \<noteq> BAD_REQUEST \<and>
            (\<exists>rest. calls (snd (handleStartMachine this request w)) =
               calls w @ [CacheGet (req_machineId request), SmcStartCycle (machineId m)] @ rest))"
  using assms
  by (auto simp: handleStartMachine_def resolveMachine_eq prims Let_def
           split: option.splits outcome.splits)

theorem handleStartMachine_cached_snapshot_witness:
  "cache staleWorld (req_machineId (startRequest ''m1'')) =
     Some (machine_m1\<lparr>status := AVAILABLE, jobId := None\<rparr>) \<and>
   getMachine sampleHandler (table staleWorld) ''m1'' = Some machine_m1 \<and>
   status machine_m1 = AWAITING_DROPOFF \<and>
   handleStartMachine sampleHandler (startRequest ''m1'') staleWorld =
     (\<lparr>statusCode = BAD_REQUEST,
       machine = Machine (machine_m1\<lparr>status := AVAILABLE, jobId := None\<rparr>)\<rparr>,
      staleWorld\<lparr>calls := [CacheGet ''m1'']\<rparr>) \<and>
   cache staleWorld (req_machineId (startRequest ''m5'')) =
     Some (machine_m5\<lparr>status := AWAITING_DROPOFF\<rparr>) \<and>
   getMachine sampleHandler (table staleWorld) ''m5'' = Some machine_m5 \<and>
   status machine_m5 = RUNNING \<and>
   fst (handleStartMachine sampleHandler (startRequest ''m5'') staleWorld) =
     \<lparr>statusCode = OK, machine = Machine machine_m5\<rparr> \<and>
   calls (snd (handleStartMachine sampleHandler (startRequest ''m5'') staleWorld)) =
     [CacheGet ''m5'', SmcStartCycle ''m5'', TableUpdateStatus ''m5'' RUNNING, TableGet ''m5'',
      CachePut ''m5'']"
  using handleStartMachine_cached_snapshot [where this = sampleHandler and w = staleWorld
      and request = "startRequest ''m1''" and m = "machine_m1\<lparr>status := AVAILABLE, jobId := None\<rparr>"]
    handleStartMachine_cached_snapshot [where this = sampleHandler and w = staleWorld
      and request = "startRequest ''m5''" and m = "machine_m5\<lparr>status := AWAITING_DROPOFF\<rparr>"]
  by (simp add: samples handlers prims)

text \<open>
  Claim C4.  The resolved record is in \<open>AWAITING_DROPOFF\<close> and \<open>startCycle\<close>
  returns.  Then the table is the old one with the status of that machine updated to
  \<open>RUNNING\<close>, and the record is read again from it.  A record found has status
  \<open>RUNNING\<close>, is the new cache entry of that machine and is returned with \<open>OK\<close>;
  when none is found the answer is \<open>NOT_FOUND\<close> with no machine and the cache is left
  as it was.
\<close>

theorem handleStartMachine_success:
  assumes "store_laws this"
    and "fst (resolveMachine this (req_machineId request) w) = Some m"
    and "status m = AWAITING_DROPOFF"
    and "startCycle this (machineId m) = Returns"
  shows "table (snd (handleStartMachine this request w)) =
           updateMachineStatus this (table w) (machineId m) RUNNING \<and>
         (\<forall>u. getMachine this (table (snd (handleStartMachine this request w))) (machineId m) = Some u \<longrightarrow>
            status u = RUNNING \<and>
            fst (handleStartMachine this request w) = \<lparr>statusCode = OK, machine = Machine u\<rparr> \<and>
            cache (snd (handleStartMachine this request w)) = (cache w)(machineId m \<mapsto> u)) \<and>
         (getMachine this (table (snd (handleStartMachine this request w))) (machineId m) = None \<longrightarrow>
            fst (handleStartMachine this request w) =
              \<lparr>statusCode = NOT_FOUND, machine = Undefined\<rparr> \<and>
            cache (snd (handleStartMachine this request w)) = cache w)"
proof -
  let ?k = "machineId m"
  let ?t = "updateMachineStatus this (table w) ?k RUNNING"
  obtain w1 where r: "resolveMachine this (req_machineId request) w = (Some m, w1)"
    and w1: "table w1 = table w" "cache w1 = cache w"
    using assms(2) by (auto simp: resolveMachine_eq split: option.splits)
  show ?thesis
  proof (cases "getMachine this ?t ?k")
    case None
    then show ?thesis
      using r w1 assms(3,4) by (simp add: handleStartMachine_def prims Let_def)
  next
    case (Some u)
    from Some have k: "machineId u = ?k" using assms(1) by (rule law_key [rotated])
    from Some have s: "status u = RUNNING"
      using law_status [OF assms(1), of "table w" ?k RUNNING ?k] by auto
    show ?thesis
      using Some k s r w1 assms(3,4) by (simp add: handleStartMachine_def prims Let_def)
  qed
qed

theorem handleStartMachine_success_witness:
  "store_laws sampleHandler \<and>
   fst (resolveMachine sampleHandler (req_machineId (startRequest ''m1'')) sampleWorld) = Some machine_m1 \<and>
   status machine_m1 = AWAITING_DROPOFF \<and>
   startCycle sampleHandler (machineId machine_m1) = Returns \<and>
   getMachine sampleHandler
     (table (snd (handleStartMachine sampleHandler (startRequest ''m1'') sampleWorld))) ''m1'' =
     Some (machine_m1\<lparr>status := RUNNING\<rparr>) \<and>
   fst (handleStartMachine sampleHandler (startRequest ''m1'') sampleWorld) =
     \<lparr>statusCode = OK, machine = Machine (machine_m1\<lparr>status := RUNNING\<rparr>)\<rparr> \<and>
   cache (snd (handleStartMachine sampleHandler (startRequest ''m1'') sampleWorld)) =
     [''m1'' \<mapsto> machine_m1\<lparr>status := RUNNING\<rparr>] \<and>
   fst (resolveMachine sampleHandler (req_machineId (startRequest ''m9'')) orphanWorld) = Some machine_m9 \<and>
   startCycle sampleHandler (machineId machine_m9) = Returns \<and>
   getMachine sampleHandler
     (table (snd (handleStartMachine sampleHandler (startRequest ''m9'') orphanWorld))) ''m9'' = None \<and>
   fst (handleStartMachine sampleHandler (startRequest ''m9'') orphanWorld) =
     \<lparr>statusCode = NOT_FOUND, machine = Undefined\<rparr> \<and>
   cache (snd (handleStartMachine sampleHandler (startRequest ''m9'') orphanWorld)) = cache orphanWorld"
  using sampleHandler_laws
    handleStartMachine_success [OF sampleHandler_laws, where w = sampleWorld
      and request = "startRequest ''m1''" and m = machine_m1]
    handleStartMachine_success [OF sampleHandler_laws, where w = orphanWorld
      and request = "startRequest ''m9''" and m = machine_m9]
  by (simp add: samples handlers prims)

text \<open>
  Claim C1.  The resolved record is in \<open>AWAITING_DROPOFF\<close> and \<open>startCycle\<close>
  throws.  Then the compensating write is made: the table is the old one with the status
  of that machine updated to \<open>ERROR\<close>, and the record is read again from it.  A record
  found has status \<open>ERROR\<close> (so not \<open>AWAITING_DROPOFF\<close>), is the new cache entry of
  that machine and is returned with \<open>HARDWARE_ERROR\<close>; when none is found the answer
  is \<open>NOT_FOUND\<close> with no machine.
\<close>

theorem handleStartMachine_hardware_failure:
  assumes "store_laws this"
    and "fst (resolveMachine this (req_machineId request) w) = Some m"
    and "status m = AWAITING_DROPOFF"
    and "startCycle this (machineId m) = Throws"
  shows "table (snd (handleStartMachine this request w)) =
           updateMachineStatus this (table w) (machineId m) ERROR \<and>
         TableUpdateStatus (machineId m) ERROR \<in> set (calls (snd (handleStartMachine this request w))) \<and>
         (\<forall>u. getMachine this (table (snd (handleStartMachine this request w))) (machineId m) = Some u \<longrightarrow>
            status u = ERROR \<and>
            fst (handleStartMachine this request w) =
              \<lparr>statusCode = HARDWARE_ERROR, machine = Machine u\<rparr> \<and>
            cache (snd (handleStartMachine this request w)) = (cache w)(machineId m \<mapsto> u)) \<and>
         (getMachine this (table (snd (handleStartMachine this request w))) (machineId m) = None \<longrightarrow>
            fst (handleStartMachine this request w) =
              \<lparr>statusCode = NOT_FOUND, machine = Undefined\<rparr> \<and>
            cache (snd (handleStartMachine this request w)) = cache w)"
proof -
  let ?k = "machineId m"
  let ?t = "updateMachineStatus this (table w) ?k ERROR"
  obtain w1 where r: "resolveMachine this (req_machineId request) w = (Some m, w1)"
    and w1: "table w1 = table w" "cache w1 = cache w"
    using assms(2) by (auto simp: resolveMachine_eq split: option.splits)
  show ?thesis
  proof (cases "getMachine this ?t ?k")
    case None
    then show ?thesis
      using r w1 assms(3,4) by (simp add: handleStartMachine_def prims Let_def)
  next
    case (Some u)
    from Some have k: "machineId u = ?k" using assms(1) by (rule law_key [rotated])
    from Some have s: "status u = ERROR"
      using law_status [OF assms(1), of "table w" ?k ERROR ?k] by auto
    show ?thesis
      using Some k s r w1 assms(3,4) by (simp add: handleStartMachine_def prims Let_def)
  qed
qed

theorem handleStartMachine_hardware_failure_witness:
  "store_laws sampleHandler \<and>
   fst (resolveMachine sampleHandler (req_machineId (startRequest ''m2'')) sampleWorld) = Some machine_m2 \<and>
   status machine_m2 = AWAITING_DROPOFF \<and>
   startCycle sampleHandler (machineId machine_m2) = Throws \<and>
   getMachine sampleHandler
     (table (snd (handleStartMachine sampleHandler (startRequest ''m2'') sampleWorld))) ''m2'' =
     Some (machine_m2\<lparr>status := ERROR\<rparr>) \<and>
   fst (handleStartMachine sampleHandler (startRequest ''m2'') sampleWorld) =
     \<lparr>statusCode = HARDWARE_ERROR, machine = Machine (machine_m2\<lparr>status := ERROR\<rparr>)\<rparr> \<and>
   cache (snd (handleStartMachine sampleHandler (startRequest ''m2'') sampleWorld)) =
     [''m2'' \<mapsto> machine_m2\<lparr>status := ERROR\<rparr>] \<and>
   calls (snd (handleStartMachine sampleHandler (startRequest ''m2'') sampleWorld)) =
     [CacheGet ''m2'', TableGet ''m2'', SmcStartCycle ''m2'', TableUpdateStatus ''m2'' ERROR,
      TableGet ''m2'', CachePut ''m2''] \<and>
   fst (resolveMachine sampleHandler (req_machineId (startRequest ''m8'')) orphanWorld) = Some machine_m8 \<and>
   startCycle sampleHandler (machineId machine_m8) = Throws \<and>
   getMachine sampleHandler
     (table (snd (handleStartMachine sampleHandler (startRequest ''m8'') orphanWorld))) ''m8'' = None \<and>
   fst (handleStartMachine sampleHandler (startRequest ''m8'') orphanWorld) =
     \<lparr>statusCode = NOT_FOUND, machine = Undefined\<rparr>"
  using sampleHandler_laws
    handleStartMachine_hardware_failure [OF sampleHandler_laws, where w = sampleWorld
      and request = "startRequest ''m2''" and m = machine_m2]
    handleStartMachine_hardware_failure [OF sampleHandler_laws, where w = orphanWorld
      and request = "startRequest ''m8''" and m = machine_m8]
  by (simp add: samples handlers prims)

section \<open>Reserve\<close>

lemma find_first:
  "xs = pre @ a # post \<Longrightarrow> \<forall>m\<in>set pre. \<not> P m \<Longrightarrow> P a \<Longrightarrow> find P xs = Some a"
  by (induction pre arbitrary: xs) auto

text \<open>
  Claim C2.  The listing of the requested location has an \<open>AVAILABLE\<close> machine; let
  \<open>a\<close> be the first one in listing order.  Then \<open>handleRequestMachine\<close> selects
  \<open>a\<close>: the table is the old one with the status of machine \<open>a\<close> updated to
  \<open>AWAITING_DROPOFF\<close> and then its job set to the requested one.  Afterwards the
  table's record of that machine has status \<open>AWAITING_DROPOFF\<close> and the requested
  job, the cache entry of that machine is this record, and it is returned with \<open>OK\<close>.
\<close>

theorem handleRequestMachine_first_available:
  assumes "store_laws this"
    and "listMachinesAtLocation this (table w) (req_locationId request) = pre @ a # post"
    and "\<forall>m\<in>set pre. status m \<noteq> AVAILABLE"
    and "status a = AVAILABLE"
  shows "table (snd (handleRequestMachine this request w)) =
           updateMachineJobId this
             (updateMachineStatus this (table w) (machineId a) AWAITING_DROPOFF)
             (machineId a) (req_jobId request) \<and>
         (\<exists>u. getMachine this (table (snd (handleRequestMachine this request w))) (machineId a) = Some u \<and>
              status u = AWAITING_DROPOFF \<and>
              jobId u = Some (req_jobId request) \<and>
              cache (snd (handleRequestMachine this request w)) = (cache w)(machineId a \<mapsto> u) \<and>
              fst (handleRequestMachine this request w) = \<lparr>statusCode = OK, machine = Machine u\<rparr>)"
proof -
  let ?k = "machineId a"
  let ?t = "updateMachineJobId this (updateMachineStatus this (table w) ?k AWAITING_DROPOFF)
              ?k (req_jobId request)"
  have f: "find (\<lambda>m. status m = AVAILABLE)
             (listMachinesAtLocation this (table w) (req_locationId request)) = Some a"
    using assms(2-4) by (intro find_first) auto
  have "a \<in> set (listMachinesAtLocation this (table w) (req_locationId request))"
    using assms(2) by simp
  then obtain r where r: "getMachine this (table w) ?k = Some r"
    using law_listed [OF assms(1)] by blast
  let ?u = "r\<lparr>status := AWAITING_DROPOFF, jobId := Some (req_jobId request)\<rparr>"
  have g: "getMachine this ?t ?k = Some ?u"
    using r by (simp add: law_jobId [OF assms(1)] law_status [OF assms(1)])
  have k: "machineId ?u = ?k"
    using g assms(1) by (rule law_key [rotated])
  have "handleRequestMachine this request w =
          (\<lparr>statusCode = OK, machine = Machine ?u\<rparr>,
           w\<lparr>table := ?t, cache := (cache w)(?k \<mapsto> ?u),
             calls := calls w @ [TableList (req_locationId request),
                                 TableUpdateStatus ?k AWAITING_DROPOFF,
                                 TableUpdateJobId ?k (req_jobId request),
                                 TableGet ?k, CachePut ?k]\<rparr>)"
    using f g k by (simp add: handleRequestMachine_def prims Let_def)
  then show ?thesis using g by simp
qed

theorem handleRequestMachine_first_available_witness:
  "store_laws sampleHandler \<and>
   listMachinesAtLocation sampleHandler (table sampleWorld) (req_locationId (reserveRequest ''loc-1'')) =
     [machine_m1, machine_m2] @ machine_m3 # [machine_m4] \<and>
   list_all (\<lambda>m. status m \<noteq> AVAILABLE) [machine_m1, machine_m2] \<and>
   status machine_m3 = AVAILABLE \<and>
   getMachine sampleHandler
     (table (snd (handleRequestMachine sampleHandler (reserveRequest ''loc-1'') sampleWorld))) ''m3'' =
     Some (machine_m3\<lparr>status := AWAITING_DROPOFF, jobId := Some ''job-9''\<rparr>) \<and>
   getMachine sampleHandler
     (table (snd (handleRequestMachine sampleHandler (reserveRequest ''loc-1'') sampleWorld))) ''m4'' =
     Some machine_m4 \<and>
   cache (snd (handleRequestMachine sampleHandler (reserveRequest ''loc-1'') sampleWorld)) =
     [''m3'' \<mapsto> machine_m3\<lparr>status := AWAITING_DROPOFF, jobId := Some ''job-9''\<rparr>] \<and>
   fst (handleRequestMachine sampleHandler (reserveRequest ''loc-1'') sampleWorld) =
     \<lparr>statusCode = OK,
      machine = Machine (machine_m3\<lparr>status := AWAITING_DROPOFF, jobId := Some ''job-9''\<rparr>)\<rparr>"
  using sampleHandler_laws handleRequestMachine_first_available [OF sampleHandler_laws, where w = sampleWorld
      and request = "reserveRequest ''loc-1''" and pre = "[machine_m1, machine_m2]"
      and a = machine_m3 and post = "[machine_m4]"]
  by (simp add: samples handlers prims)

text \<open>
  Claim C7.  \<open>handleRequestMachine\<close> answers \<open>NOT_FOUND\<close> with no machine in
  exactly two cases: no machine of the listing is \<open>AVAILABLE\<close>, or one is selected and
  the read by its id after the two updates finds no record.  In the first case the
  table and the cache are left as they were and the listing is the only call.  In every
  other case the answer is \<open>OK\<close>: the second case is not turned into an error code.
  The statement holds for every table, also one that does not keep \<open>store_laws\<close>.
\<close>

theorem handleRequestMachine_not_found:
  "(fst (handleRequestMachine this request w) = \<lparr>statusCode = NOT_FOUND, machine = Undefined\<rparr> \<longleftrightarrow>
      (\<forall>m\<in>set (listMachinesAtLocation this (table w) (req_locationId request)).
          status m \<noteq> AVAILABLE) \<or>
      (\<exists>a. find (\<lambda>m. status m = AVAILABLE)
              (listMachinesAtLocation this (table w) (req_locationId request)) = Some a \<and>
           getMachine this
             (updateMachineJobId this
                (updateMachineStatus this (table w) (machineId a) AWAITING_DROPOFF)
                (machineId a) (req_jobId request))
             (machineId a) = None)) \<and>
   ((\<forall>m\<in>set (listMachinesAtLocation this (table w) (req_locationId request)).
        status m \<noteq> AVAILABLE) \<longrightarrow>
      table (snd (handleRequestMachine this request w)) = table w \<and>
      cache (snd (handleRequestMachine this request w)) = cache w \<and>
      calls (snd (handleRequestMachine this request w)) =
        calls w @ [TableList (req_locationId request)]) \<and>
   (statusCode (fst (handleRequestMachine this request w)) = NOT_FOUND \<or>
    statusCode (fst (handleRequestMachine this request w)) = OK)"
proof (cases "find (\<lambda>m. status m = AVAILABLE)
               (listMachinesAtLocation this (table w) (req_locationId request))")
  case None
  then have "\<forall>m\<in>set (listMachinesAtLocation this (table w) (req_locationId request)).
               status m \<noteq> AVAILABLE"
    by (simp add: find_None_iff)
  then show ?thesis
    using None by (simp add: handleRequestMachine_def prims)
next
  case (Some a)
  then have "\<not> (\<forall>m\<in>set (listMachinesAtLocation this (table w) (req_locationId request)).
               status m \<noteq> AVAILABLE)"
    by (auto simp: find_Some_iff)
  then show ?thesis
    using Some by (auto simp: handleRequestMachine_def prims Let_def split: option.splits)
qed

theorem handleRequestMachine_not_found_witness:
  "list_all (\<lambda>m. status m \<noteq> AVAILABLE)
     (listMachinesAtLocation sampleHandler (table sampleWorld) (req_locationId (reserveRequest ''loc-2''))) \<and>
   handleRequestMachine sampleHandler (reserveRequest ''loc-2'') sampleWorld =
     (\<lparr>statusCode = NOT_FOUND, machine = Undefined\<rparr>, sampleWorld\<lparr>calls := [TableList ''loc-2'']\<rparr>) \<and>
   find (\<lambda>m. status m = AVAILABLE)
     (listMachinesAtLocation vanishingHandler (table sampleWorld) (req_locationId (reserveRequest ''loc-1''))) =
     Some machine_m3 \<and>
   fst (handleRequestMachine vanishingHandler (reserveRequest ''loc-1'') sampleWorld) =
     \<lparr>statusCode = NOT_FOUND, machine = Undefined\<rparr> \<and>
   cache (snd (handleRequestMachine vanishingHandler (reserveRequest ''loc-1'') sampleWorld)) =
     cache sampleWorld \<and>
   fst (handleRequestMachine sampleHandler (reserveRequest ''loc-1'') sampleWorld) \<noteq>
     \<lparr>statusCode = NOT_FOUND, machine = Undefined\<rparr>"
  using handleRequestMachine_not_found [where this = sampleHandler and w = sampleWorld
      and request = "reserveRequest ''loc-2''"]
    handleRequestMachine_not_found [where this = vanishingHandler and w = sampleWorld
      and request = "reserveRequest ''loc-1''"]
    handleRequestMachine_not_found [where this = sampleHandler and w = sampleWorld
      and request = "reserveRequest ''loc-1''"]
  by (simp add: samples handlers prims)

text \<open>Over a table that keeps its contract the second case does not arise.\<close>

lemma handleRequestMachine_not_found_lawful:
  assumes "store_laws this"
  shows "fst (handleRequestMachine this request w) = \<lparr>statusCode = NOT_FOUND, machine = Undefined\<rparr> \<longleftrightarrow>
         (\<forall>m\<in>set (listMachinesAtLocation this (table w) (req_locationId request)).
             status m \<noteq> AVAILABLE)"
proof (cases "find (\<lambda>m. status m = AVAILABLE)
               (listMachinesAtLocation this (table w) (req_locationId request))")
  case None
  then have "\<forall>m\<in>set (listMachinesAtLocation this (table w) (req_locationId request)).
               status m \<noteq> AVAILABLE"
    by (simp add: find_None_iff)
  then show ?thesis
    using None by (simp add: handleRequestMachine_def prims)
next
  case (Some a)
  then have a: "a \<in> set (listMachinesAtLocation this (table w) (req_locationId request))"
    and "status a = AVAILABLE"
    by (auto simp: find_Some_iff)
  then have ex: "\<not> (\<forall>m\<in>set (listMachinesAtLocation this (table w) (req_locationId request)).
                     status m \<noteq> AVAILABLE)"
    by blast
  obtain r where "getMachine this (table w) (machineId a) = Some r"
    using law_listed [OF assms a] by blast
  then show ?thesis
    using Some ex
    by (simp add: handleRequestMachine_def prims Let_def law_jobId [OF assms] law_status [OF assms])
qed

section \<open>Other machines are left alone\<close>

text \<open>The cache invariant holds of the empty cache and is kept by every operation.\<close>

lemma cache_wf_empty: "cache_wf Map.empty"
  by (simp add: cache_wf_def)

lemma cache_wf_put: "cache_wf c \<Longrightarrow> cache_wf (c(machineId m \<mapsto> m))"
  by (simp add: cache_wf_def)

lemma handleRequestMachine_cache_wf:
  "cache_wf (cache w) \<Longrightarrow> cache_wf (cache (snd (handleRequestMachine this request w)))"
  by (auto simp: handleRequestMachine_def prims Let_def cache_wf_put split: option.splits)

lemma handleGetMachine_cache_wf:
  "cache_wf (cache w) \<Longrightarrow> cache_wf (cache (snd (handleGetMachine this request w)))"
  by (auto simp: handleGetMachine_def prims cache_wf_put split: option.splits)

lemma handleStartMachine_cache_wf:
  "cache_wf (cache w) \<Longrightarrow> cache_wf (cache (snd (handleStartMachine this request w)))"
  by (auto simp: handleStartMachine_def resolveMachine_def prims Let_def cache_wf_put
           split: option.splits outcome.splits)

lemma route_cache_wf:
  "cache_wf (cache w) \<Longrightarrow> cache_wf (cache (snd (route this request w)))"
  by (simp add: route_def internalError_def handleRequestMachine_cache_wf
        handleGetMachine_cache_wf handleStartMachine_cache_wf
      split: option.splits bool.splits)

lemma handle_cache_wf:
  assumes "cache_wf (cache w)"
  shows "cache_wf (cache (snd (handle this request w)))"
proof (cases "token request = [] \<or> \<not> validateToken this (token request)")
  case True
  then show ?thesis
    using assms by (auto simp: handle_def checkToken_def prims)
next
  case False
  have "cache_wf (cache (log (IdpValidateToken (token request)) w))"
    using assms by (simp add: log_def)
  then have "cache_wf (cache (snd (route this request (log (IdpValidateToken (token request)) w))))"
    by (rule route_cache_wf)
  then show ?thesis
    using False by (simp add: handle_valid)
qed

lemma handleGetMachine_frame:
  assumes "store_laws this" and "k' \<noteq> req_machineId request"
  shows "unchanged_at this k' w (snd (handleGetMachine this request w))"
proof (cases "cache w (req_machineId request)")
  case (Some m)
  then show ?thesis by (simp add: unchanged_at_def handleGetMachine_def prims)
next
  case None
  show ?thesis
  proof (cases "getMachine this (table w) (req_machineId request)")
    case n: None
    then show ?thesis using None by (simp add: unchanged_at_def handleGetMachine_def prims)
  next
    case (Some m)
    then have "machineId m = req_machineId request" using assms(1) by (rule law_key [rotated])
    then show ?thesis
      using None Some assms(2) by (simp add: unchanged_at_def handleGetMachine_def prims)
  qed
qed

lemma resolveMachine_key:
  assumes "store_laws this" and "cache_wf (cache w)"
    and "fst (resolveMachine this k w) = Some m"
  shows "machineId m = k"
  using assms
  by (auto simp: resolveMachine_eq cache_wf_def split: option.splits dest: law_key)

lemma handleStartMachine_frame:
  assumes "store_laws this" and "cache_wf (cache w)" and "k' \<noteq> req_machineId request"
  shows "unchanged_at this k' w (snd (handleStartMachine this request w))"
proof (cases "fst (resolveMachine this (req_machineId request) w)")
  case None
  then show ?thesis
    by (auto simp: unchanged_at_def handleStartMachine_def resolveMachine_eq split: option.splits)
next
  case (Some m)
  then have k: "machineId m = req_machineId request"
    using assms(1,2) resolveMachine_key by blast
  obtain w1 where r: "resolveMachine this (req_machineId request) w = (Some m, w1)"
    and w1: "table w1 = table w" "cache w1 = cache w"
    using Some by (auto simp: resolveMachine_eq split: option.splits)
  have key: "\<And>t u. getMachine this t (req_machineId request) = Some u \<Longrightarrow>
               machineId u = req_machineId request"
    using assms(1) by (rule law_key)
  show ?thesis
    using r w1 k assms(3) key
    by (auto simp: unchanged_at_def handleStartMachine_def prims Let_def law_status [OF assms(1)]
             split: option.splits outcome.splits)
qed

lemma handleRequestMachine_frame:
  assumes "store_laws this"
    and "\<forall>a. find (\<lambda>m. status m = AVAILABLE)
               (listMachinesAtLocation this (table w) (req_locationId request)) = Some a \<longrightarrow>
             k' \<noteq> machineId a"
  shows "unchanged_at this k' w (snd (handleRequestMachine this request w))"
proof (cases "find (\<lambda>m. status m = AVAILABLE)
               (listMachinesAtLocation this (table w) (req_locationId request))")
  case None
  then show ?thesis by (simp add: unchanged_at_def handleRequestMachine_def prims)
next
  case (Some a)
  then have ne: "k' \<noteq> machineId a" using assms(2) by simp
  have key: "\<And>t u. getMachine this t (machineId a) = Some u \<Longrightarrow> machineId u = machineId a"
    using assms(1) by (rule law_key)
  show ?thesis
    using Some ne key
    by (auto simp: unchanged_at_def handleRequestMachine_def prims Let_def
                   law_status [OF assms(1)] law_jobId [OF assms(1)]
             split: option.splits)
qed

text \<open>
  Claim C10.  Over a table that keeps its contract and a cache whose entries are keyed
  by their own ids, each operation leaves the table record and the cache entry of every
  machine other than its target as they were.  The target of Reserve is the first
  \<open>AVAILABLE\<close> machine of the listing (with none, every machine is left alone); the
  target of Get and of Start is the requested id.
\<close>

theorem handlers_frame:
  assumes "store_laws this" and "cache_wf (cache w)"
  shows "((\<forall>a. find (\<lambda>m. status m = AVAILABLE)
                 (listMachinesAtLocation this (table w) (req_locationId request)) = Some a \<longrightarrow>
               k' \<noteq> machineId a) \<longrightarrow>
            unchanged_at this k' w (snd (handleRequestMachine this request w))) \<and>
         (k' \<noteq> req_machineId request \<longrightarrow>
            unchanged_at this k' w (snd (handleGetMachine this request w))) \<and>
         (k' \<noteq> req_machineId request \<longrightarrow>
            unchanged_at this k' w (snd (handleStartMachine this request w)))"
  using assms handleRequestMachine_frame handleGetMachine_frame handleStartMachine_frame
  by blast

theorem handlers_frame_witness:
  "store_laws sampleHandler \<and> cache_wf (cache sampleWorld) \<and>
   find (\<lambda>m. status m = AVAILABLE)
     (listMachinesAtLocation sampleHandler (table sampleWorld) (req_locationId (reserveRequest ''loc-1''))) =
     Some machine_m3 \<and>
   ''m4'' \<noteq> machineId machine_m3 \<and>
   unchanged_at sampleHandler ''m4'' sampleWorld
     (snd (handleRequestMachine sampleHandler (reserveRequest ''loc-1'') sampleWorld)) \<and>
   ''m4'' \<noteq> req_machineId (getRequest ''m5'') \<and>
   unchanged_at sampleHandler ''m4'' sampleWorld
     (snd (handleGetMachine sampleHandler (getRequest ''m5'') sampleWorld)) \<and>
   ''m2'' \<noteq> req_machineId (startRequest ''m1'') \<and>
   unchanged_at sampleHandler ''m2'' sampleWorld
     (snd (handleStartMachine sampleHandler (startRequest ''m1'') sampleWorld)) \<and>
   \<not> unchanged_at sampleHandler ''m1'' sampleWorld
     (snd (handleStartMachine sampleHandler (startRequest ''m1'') sampleWorld))"
  using sampleHandler_laws
    handlers_frame [OF sampleHandler_laws, where w = sampleWorld and k' = "''m4''"
      and request = "reserveRequest ''loc-1''"]
    handlers_frame [OF sampleHandler_laws, where w = sampleWorld and k' = "''m4''"
      and request = "getRequest ''m5''"]
    handlers_frame [OF sampleHandler_laws, where w = sampleWorld and k' = "''m2''"
      and request = "startRequest ''m1''"]
  by (simp add: cache_wf_def unchanged_at_def samples handlers prims)

end
